theory Spec2Isabelle
  imports Main "HOL-Library.Word" "HOL-Library.AList" "HOL-Library.Finite_Map"
    "HOL-Library.List_Lexorder" "HOL-Library.Char_ord"
begin

section \<open>Errors\<close>

text \<open>
  Go error values as data. \<open>Errorf\<close> is the value of \<^verbatim>\<open>fmt.Errorf\<close> with its message,
  \<open>notFoundError\<close> the value \<^verbatim>\<open>&notFoundError{}\<close> of the fake daemon, \<open>ImageNotFound\<close> the
  error of \<^verbatim>\<open>ImageTag\<close> for an unknown image (it carries the image and the table that the
  message prints), \<open>Wrap\<close> the value of \<^verbatim>\<open>errors.Wrap(err, msg)\<close>. \<open>PathError\<close> stands for
  the errors of the operating system (operation, path), \<open>LibError\<close> for an error of a
  library outside the repository.
\<close>

datatype error =
    Errorf string
  | notFoundError
  | ImageNotFound string "(string \<times> string) list option"
  | Wrap error string
  | PathError string string
  | LibError string

text \<open>
  The method \<^verbatim>\<open>NotFound\<close> exists on \<^verbatim>\<open>notFoundError\<close> only and returns true there; an
  error without the method does not satisfy the predicate.
\<close>

fun NotFound :: "error \<Rightarrow> bool" where
  "NotFound notFoundError = True"
| "NotFound _ = False"

section \<open>The fake daemon client\<close>

typedecl ImageSummary

record ImageBuildOptions =
  Tags :: "string list"

record ImageInspect =
  InspectID :: string
  InspectRepoDigests :: "string list"

text \<open>
  \<^verbatim>\<open>TagToImageID\<close> is a Go map that may be nil: \<open>None\<close> is the nil map, \<open>Some al\<close> a map
  with the entries of \<open>al\<close>. The order of \<open>al\<close> is the order in which a \<^verbatim>\<open>range\<close> loop
  visits the entries, which Go leaves open; a lookup is \<open>map_of\<close>, an assignment
  \<open>AList.update\<close>. \<^verbatim>\<open>nextImageID\<close> is a Go \<^verbatim>\<open>int\<close>, 64 bits wide here.
\<close>

record FakeAPIClient =
  TagToImageID :: "(string \<times> string) list option"
  ImageSummaries :: "ImageSummary list"
  RepoDigests :: "string list"
  ErrImageBuild :: bool
  ErrImageInspect :: bool
  ErrImageTag :: bool
  ErrImagePush :: bool
  ErrImagePull :: bool
  ErrStream :: bool
  nextImageID :: "64 word"
  Tagged :: "string list"
  Pushed :: "string list"
  Built :: "ImageBuildOptions list"
  PushedImages :: "string list"

text \<open>The stream returned by build, push and pull: one that fails on reading, or a text.\<close>

datatype ReadCloser = errReader | Reader string

definition entries :: "(string \<times> string) list option \<Rightarrow> (string \<times> string) list" where
  "entries m = (case m of None \<Rightarrow> [] | Some al \<Rightarrow> al)"

definition lookup :: "(string \<times> string) list option \<Rightarrow> string \<Rightarrow> string option" where
  "lookup m k = map_of (entries m) k"

definition body :: "FakeAPIClient \<Rightarrow> string \<Rightarrow> ReadCloser" where
  \<open>body f digest =
     (if ErrStream f then errReader
      else Reader (''{"aux":{"digest":"'' @ digest @ ''"}}''))\<close>

text \<open>The verb \<^verbatim>\<open>%d\<close> on a 64-bit signed integer.\<close>

function decimal_nat :: "nat \<Rightarrow> string" where
  "decimal_nat n =
     (if n < 10 then [''0123456789'' ! n]
      else decimal_nat (n div 10) @ [''0123456789'' ! (n mod 10)])"
  by pat_completeness auto
termination
  by (relation "measure id") auto

definition decimal :: "int \<Rightarrow> string" where
  "decimal i = (if i < 0 then CHR ''-'' # decimal_nat (nat (- i)) else decimal_nat (nat i))"

text \<open>The loop of \<^verbatim>\<open>ImageBuild\<close> over \<^verbatim>\<open>options.Tags\<close>.\<close>

fun tagAll :: "string \<Rightarrow> string list \<Rightarrow> (string \<times> string) list \<Rightarrow> (string \<times> string) list" where
  "tagAll imageID [] m = m"
| "tagAll imageID (tag # tags) m =
     (let m1 = AList.update tag imageID m;
          m2 = (if CHR '':'' \<notin> set tag then AList.update (tag @ '':latest'') imageID m1 else m1)
      in tagAll imageID tags m2)"

definition ImageBuild ::
  "FakeAPIClient \<Rightarrow> ImageBuildOptions \<Rightarrow> FakeAPIClient \<times> (error + ReadCloser)" where
  "ImageBuild f options =
     (if ErrImageBuild f then (f, Inl (Errorf ''''))
      else
        let m0 = entries (TagToImageID f);
            n = nextImageID f + 1;
            imageID = ''sha256:'' @ decimal (sint n);
            m1 = AList.update imageID imageID m0;
            m2 = tagAll imageID (Tags options) m1;
            f' = f\<lparr>TagToImageID := Some m2, nextImageID := n, Built := Built f @ [options]\<rparr>
        in (f', Inr (body f' imageID)))"

text \<open>
  The loop of \<^verbatim>\<open>ImageInspectWithRaw\<close> over the entries, in the order the loop visits
  them: the first entry whose tag or image id is \<open>ref\<close> decides.
\<close>

fun findImage :: "string \<Rightarrow> (string \<times> string) list \<Rightarrow> string option" where
  "findImage ref [] = None"
| "findImage ref ((tag, imageID) # rest) =
     (if tag = ref \<or> imageID = ref then Some imageID else findImage ref rest)"

definition ImageInspectWithRaw ::
  "FakeAPIClient \<Rightarrow> string \<Rightarrow> error + (ImageInspect \<times> string)" where
  \<open>ImageInspectWithRaw f ref =
     (if ErrImageInspect f then Inl (Errorf '''')
      else case findImage ref (entries (TagToImageID f)) of
        Some imageID \<Rightarrow>
          Inr (\<lparr>InspectID = imageID, InspectRepoDigests = RepoDigests f\<rparr>,
               ''{"Config":{"Image":"'' @ imageID @ ''"}}'')
      | None \<Rightarrow> Inl notFoundError)\<close>

definition ImageTag :: "FakeAPIClient \<Rightarrow> string \<Rightarrow> string \<Rightarrow> FakeAPIClient \<times> error option" where
  "ImageTag f img ref =
     (if ErrImageTag f then (f, Some (Errorf ''''))
      else case lookup (TagToImageID f) img of
        None \<Rightarrow> (f, Some (ImageNotFound img (TagToImageID f)))
      | Some imageID \<Rightarrow>
          (f\<lparr>TagToImageID := Some (AList.update ref imageID (entries (TagToImageID f))),
             Tagged := Tagged f @ [ref]\<rparr>, None))"

text \<open>
  \<^verbatim>\<open>crypto/sha256\<close> is a parameter \<open>sha\<close>, from the bytes written to the 256-bit sum;
  \<^verbatim>\<open>%x\<close> prints its 32 bytes as 64 hexadecimal digits. \<^verbatim>\<open>hash.Hash.Write\<close> never returns
  an error, so the return after it has no branch here. The slice \<^verbatim>\<open>[0:64]\<close> panics on a
  shorter string.
\<close>

definition hex :: "256 word \<Rightarrow> string" where
  "hex w = map (\<lambda>i. ''0123456789abcdef'' ! unat (take_bit 4 (drop_bit (4 * (63 - i)) w))) [0..<64]"

definition slice0 :: "string \<Rightarrow> nat \<Rightarrow> string option" where
  "slice0 s n = (if n \<le> length s then Some (take n s) else None)"

definition ImagePush ::
  "(string \<Rightarrow> 256 word) \<Rightarrow> FakeAPIClient \<Rightarrow> string \<Rightarrow> FakeAPIClient \<times> (error + ReadCloser)" where
  "ImagePush sha f ref =
     (if ErrImagePush f then (f, Inl (Errorf ''''))
      else case slice0 (hex (sha (case lookup (TagToImageID f) ref of None \<Rightarrow> [] | Some i \<Rightarrow> i))) 64 of
        None \<Rightarrow> (f, Inl (Errorf ''panic: slice bounds out of range''))
      | Some h \<Rightarrow>
          let digest = ''sha256:'' @ h;
              f' = f\<lparr>Pushed := Pushed f @ [digest], PushedImages := PushedImages f @ [ref]\<rparr>
          in (f', Inr (body f' digest)))"

definition ImagePull :: "FakeAPIClient \<Rightarrow> string \<Rightarrow> error + ReadCloser" where
  "ImagePull f ref = (if ErrImagePull f then Inl (Errorf '''') else Inr (body f ''''))"

text \<open>The zero value \<^verbatim>\<open>FakeAPIClient{}\<close>.\<close>

definition zeroClient :: FakeAPIClient where
  "zeroClient =
     \<lparr>TagToImageID = None, ImageSummaries = [], RepoDigests = [],
      ErrImageBuild = False, ErrImageInspect = False, ErrImageTag = False,
      ErrImagePush = False, ErrImagePull = False, ErrStream = False,
      nextImageID = 0, Tagged = [], Pushed = [], Built = [], PushedImages = []\<rparr>"

subsection \<open>The five operations that can be forced to fail\<close>

text \<open>
  Vocabulary for the failure flags: the five operations that have one, a call of an
  operation with its arguments, the client with exactly one flag set, the client with
  none of the five set, and what a call returns.
\<close>

datatype operation = Build | Inspect | Tag | Push | Pull

datatype call =
    BuildCall ImageBuildOptions
  | InspectCall string
  | TagCall string string
  | PushCall string
  | PullCall string

datatype response = Stream ReadCloser | Inspected ImageInspect string | Done

fun operationOf :: "call \<Rightarrow> operation" where
  "operationOf (BuildCall _) = Build"
| "operationOf (InspectCall _) = Inspect"
| "operationOf (TagCall _ _) = Tag"
| "operationOf (PushCall _) = Push"
| "operationOf (PullCall _) = Pull"

definition setOnly :: "operation \<Rightarrow> FakeAPIClient \<Rightarrow> FakeAPIClient" where
  "setOnly op f =
     f\<lparr>ErrImageBuild := (op = Build), ErrImageInspect := (op = Inspect),
       ErrImageTag := (op = Tag), ErrImagePush := (op = Push), ErrImagePull := (op = Pull)\<rparr>"

definition clearAll :: "FakeAPIClient \<Rightarrow> FakeAPIClient" where
  "clearAll f =
     f\<lparr>ErrImageBuild := False, ErrImageInspect := False,
       ErrImageTag := False, ErrImagePush := False, ErrImagePull := False\<rparr>"

fun run :: "(string \<Rightarrow> 256 word) \<Rightarrow> FakeAPIClient \<Rightarrow> call \<Rightarrow> FakeAPIClient \<times> (error + response)" where
  "run sha f (BuildCall options) =
     (case ImageBuild f options of (f', r) \<Rightarrow> (f', map_sum id Stream r))"
| "run sha f (InspectCall ref) =
     (f, map_sum id (\<lambda>(i, raw). Inspected i raw) (ImageInspectWithRaw f ref))"
| "run sha f (TagCall img ref) =
     (case ImageTag f img ref of (f', None) \<Rightarrow> (f', Inr Done) | (f', Some e) \<Rightarrow> (f', Inl e))"
| "run sha f (PushCall ref) =
     (case ImagePush sha f ref of (f', r) \<Rightarrow> (f', map_sum id Stream r))"
| "run sha f (PullCall ref) = (f, map_sum id Stream (ImagePull f ref))"

text \<open>When a call succeeds on a client with none of the five flags set.\<close>

fun succeedsUnforced :: "FakeAPIClient \<Rightarrow> call \<Rightarrow> bool" where
  "succeedsUnforced f (InspectCall ref) = (findImage ref (entries (TagToImageID f)) \<noteq> None)"
| "succeedsUnforced f (TagCall img ref) = (lookup (TagToImageID f) img \<noteq> None)"
| "succeedsUnforced f _ = True"

section \<open>The artifact cache\<close>

subsection \<open>Data\<close>

record ImageDetails =
  Digest :: string
  ID :: string

text \<open>
  \<^verbatim>\<open>ArtifactCache\<close> is a Go map from the hash of an artifact's dependencies to its image
  details. A Go map is nil or holds finitely many entries with distinct keys.
\<close>

datatype ArtifactCache = NilArtifactCache | ArtifactCache_of "(string, ImageDetails) fmap"

fun cacheEntries :: "ArtifactCache \<Rightarrow> (string, ImageDetails) fmap" where
  "cacheEntries NilArtifactCache = fmempty"
| "cacheEntries (ArtifactCache_of m) = m"

text \<open>
  Of the run context, \<^verbatim>\<open>NewCache\<close> reads the two options \<^verbatim>\<open>CacheArtifacts\<close> and
  \<^verbatim>\<open>CacheFile\<close> and the insecure registries.
\<close>

record SkaffoldOptions =
  CacheArtifacts :: bool
  CacheFile :: string

record RunContext =
  Opts :: SkaffoldOptions
  InsecureRegistries :: "(string, bool) fmap"

record ('c, 'd) cache =
  artifactCache :: ArtifactCache
  dependencies :: 'd
  client :: 'c
  insecureRegistries :: "(string, bool) fmap"
  cacheFile :: string
  imagesAreLocal :: bool

text \<open>The interface \<^verbatim>\<open>Cache\<close> has two implementations, \<^verbatim>\<open>&noCache{}\<close> and \<^verbatim>\<open>&cache{...}\<close>.\<close>

datatype ('c, 'd) Cache = noCache | realCache "('c, 'd) cache"

subsection \<open>Files, home directory, log\<close>

text \<open>
  The state the cache works on: the contents of the files by path; the paths that the
  process cannot open or create (permissions, a missing directory); the result of
  \<^verbatim>\<open>homedir.Dir()\<close>; the file operations performed so far; the warnings logged so far, each
  with its format and the error it prints.
\<close>

datatype event = EvVerifyOrCreateFile string | EvReadFile string | EvWriteFile string | EvHomeDir

record sys =
  files :: "string \<rightharpoonup> string"
  denied :: "string \<Rightarrow> bool"
  home :: "error + string"
  io :: "event list"
  warnings :: "(string \<times> error) list"

definition ioutil_ReadFile :: "sys \<Rightarrow> string \<Rightarrow> sys \<times> (error + string)" where
  "ioutil_ReadFile s p =
     (s\<lparr>io := io s @ [EvReadFile p]\<rparr>,
      case files s p of
        None \<Rightarrow> Inl (PathError ''open'' p)
      | Some contents \<Rightarrow> if denied s p then Inl (PathError ''open'' p) else Inr contents)"


text \<open>
  Modelled from the spec: \<^verbatim>\<open>util.VerifyOrCreateFile\<close> is not among the sources. The spec
  says of the resolved file: ensure the file exists (create empty if missing); it is
  created empty if it does not exist, never deleted; failure to resolve a writable path
  is an error.
\<close>

definition VerifyOrCreateFile :: "sys \<Rightarrow> string \<Rightarrow> sys \<times> error option" where
  "VerifyOrCreateFile s p =
     (case files s p of
        Some _ \<Rightarrow> (s\<lparr>io := io s @ [EvVerifyOrCreateFile p]\<rparr>, None)
      | None \<Rightarrow>
          if denied s p then (s\<lparr>io := io s @ [EvVerifyOrCreateFile p]\<rparr>, Some (PathError ''create'' p))
          else (s\<lparr>files := (files s)(p \<mapsto> []), io := io s @ [EvVerifyOrCreateFile p]\<rparr>, None))"

definition homedir_Dir :: "sys \<Rightarrow> sys \<times> (error + string)" where
  "homedir_Dir s = (s\<lparr>io := io s @ [EvHomeDir]\<rparr>, home s)"

definition Warnf :: "sys \<Rightarrow> string \<Rightarrow> error \<Rightarrow> sys" where
  "Warnf s format err = s\<lparr>warnings := warnings s @ [(format, err)]\<rparr>"

subsection \<open>YAML\<close>

text \<open>
  A YAML document as the library represents it: null, a scalar with its text, a
  sequence, or a mapping with distinct keys.
\<close>

datatype yaml = Null | Scalar string | Sequence "yaml list" | Mapping "(string, yaml) fmap"

text \<open>
  What lies outside the repository, or outside its sources, is a parameter:
  the emitter of \<^verbatim>\<open>gopkg.in/yaml.v2\<close>, from a document to its text; its parser, from a text
  to the first document of the stream, \<open>None\<close> for a stream that holds no document;
  \<^verbatim>\<open>filepath.Join\<close>; the two constants of the default cache path; and the function
  variable \<^verbatim>\<open>newDockerClient\<close>, which returns a client and an error.
\<close>

record 'c platform =
  yaml_emit :: "yaml \<Rightarrow> error + string"
  yaml_parse :: "string \<Rightarrow> error + yaml option"
  filepath_Join :: "string list \<Rightarrow> string"
  DefaultSkaffoldDir :: string
  DefaultCacheFile :: string
  newDockerClient :: "RunContext \<Rightarrow> 'c \<times> error option"




text \<open>
  Decoding into a string takes a scalar's text and reads null as the empty string;
  decoding into the struct reads null as the zero value, takes the fields \<^verbatim>\<open>digest\<close> and
  \<^verbatim>\<open>id\<close> of a mapping where they are present and ignores its other keys; decoding into
  the map reads null as the nil map and adds the entries of a mapping to the map.
  Any other shape is a type error, and \<^verbatim>\<open>Unmarshal\<close> returns an error if there was one.

  The key \<^verbatim>\<open><<\<close> of a mapping is the merge key: it names no field and no entry. Its
  value must be a mapping, or a sequence of mappings of which an earlier one takes
  precedence, and is decoded into the same struct or map; any other value is an error.
  A document keeps no order among the keys of a mapping, and a key of the mapping itself
  takes precedence over a merged one. The emitter writes the Go string \<^verbatim>\<open><<\<close> as this key:
  it quotes a string only where the resolver takes the plain text for something other
  than a string, and the resolver does not look \<^verbatim>\<open><<\<close> up.
\<close>

fun decode_string :: "yaml \<Rightarrow> string option" where
  "decode_string (Scalar s) = Some s"
| "decode_string Null = Some []"
| "decode_string _ = None"

fun isMapping :: "yaml \<Rightarrow> bool" where
  "isMapping (Mapping fs) = True"
| "isMapping _ = False"

text \<open>
  The fields that decoding a mapping sets in the struct: the digest and the id, each
  \<open>None\<close> where the mapping does not set it. The outer \<open>None\<close> is an error.
\<close>

type_synonym fields = "string option \<times> string option"

definition overFields :: "fields \<Rightarrow> fields \<Rightarrow> fields" where
  "overFields later earlier =
     (case fst later of None \<Rightarrow> fst earlier | Some d \<Rightarrow> Some d,
      case snd later of None \<Rightarrow> snd earlier | Some i \<Rightarrow> Some i)"

definition decode_field :: "(string, yaml) fmap \<Rightarrow> string \<Rightarrow> string option option" where
  "decode_field fs name =
     (case fmlookup fs name of None \<Rightarrow> Some None | Some y \<Rightarrow> map_option Some (decode_string y))"

definition mergeAll :: "('a \<Rightarrow> 'a \<Rightarrow> 'a) \<Rightarrow> 'a \<Rightarrow> 'a option list \<Rightarrow> 'a option" where
  "mergeAll over none xs = map_option (\<lambda>ys. foldr over ys none) (those xs)"

definition ownFields :: "(string, yaml) fmap \<Rightarrow> fields option option \<Rightarrow> fields option" where
  "ownFields fs merged =
     (case merged of
        Some None \<Rightarrow> None
      | _ \<Rightarrow>
        (case decode_field fs ''digest'' of
           None \<Rightarrow> None
         | Some d \<Rightarrow>
             (case decode_field fs ''id'' of
                None \<Rightarrow> None
              | Some i \<Rightarrow>
                  Some (overFields (d, i)
                          (case merged of Some (Some f) \<Rightarrow> f | _ \<Rightarrow> (None, None))))))"

primrec structFields :: "yaml \<Rightarrow> fields option" where
  "structFields Null = None"
| "structFields (Scalar s) = None"
| "structFields (Sequence vs) =
     (if list_all isMapping vs then mergeAll overFields (None, None) (map structFields vs) else None)"
| "structFields (Mapping fs) = ownFields fs (fmlookup (fmmap structFields fs) ''<<'')"

definition detailsOf :: "fields \<Rightarrow> ImageDetails" where
  "detailsOf f =
     \<lparr>Digest = (case fst f of None \<Rightarrow> [] | Some d \<Rightarrow> d),
      ID = (case snd f of None \<Rightarrow> [] | Some i \<Rightarrow> i)\<rparr>"

fun decode_ImageDetails :: "yaml \<Rightarrow> ImageDetails option" where
  "decode_ImageDetails Null = Some \<lparr>Digest = [], ID = []\<rparr>"
| "decode_ImageDetails (Mapping fs) = map_option detailsOf (structFields (Mapping fs))"
| "decode_ImageDetails _ = None"

definition decoded :: "yaml \<Rightarrow> ImageDetails" where
  "decoded y = (case decode_ImageDetails y of Some d \<Rightarrow> d | None \<Rightarrow> \<lparr>Digest = [], ID = []\<rparr>)"

text \<open>The entries that decoding a mapping adds to the map; \<open>None\<close> is an error.\<close>

definition ownEntries ::
  "(string, yaml) fmap \<Rightarrow> (string, ImageDetails) fmap option option \<Rightarrow> (string, ImageDetails) fmap option" where
  "ownEntries kvs merged =
     (case merged of
        Some None \<Rightarrow> None
      | _ \<Rightarrow>
        (if fmpred (\<lambda>k v. decode_ImageDetails v \<noteq> None) (fmdrop ''<<'' kvs)
         then Some ((case merged of Some (Some m) \<Rightarrow> m | _ \<Rightarrow> fmempty)
                      ++\<^sub>f fmmap decoded (fmdrop ''<<'' kvs))
         else None))"

primrec mapEntries :: "yaml \<Rightarrow> (string, ImageDetails) fmap option" where
  "mapEntries Null = None"
| "mapEntries (Scalar s) = None"
| "mapEntries (Sequence vs) =
     (if list_all isMapping vs then mergeAll (\<lambda>first rest. rest ++\<^sub>f first) fmempty (map mapEntries vs)
      else None)"
| "mapEntries (Mapping kvs) = ownEntries kvs (fmlookup (fmmap mapEntries kvs) ''<<'')"

fun decode_ArtifactCache :: "yaml \<Rightarrow> ArtifactCache \<Rightarrow> error + ArtifactCache" where
  "decode_ArtifactCache Null out = Inr NilArtifactCache"
| "decode_ArtifactCache (Mapping kvs) out =
     (case mapEntries (Mapping kvs) of
        Some es \<Rightarrow> Inr (ArtifactCache_of (cacheEntries out ++\<^sub>f es))
      | None \<Rightarrow> Inl (LibError ''yaml: unmarshal errors''))"
| "decode_ArtifactCache _ out = Inl (LibError ''yaml: unmarshal errors'')"

definition yaml_Unmarshal :: "'c platform \<Rightarrow> string \<Rightarrow> ArtifactCache \<Rightarrow> error + ArtifactCache" where
  "yaml_Unmarshal P data out =
     (case yaml_parse P data of
        Inl err \<Rightarrow> Inl err
      | Inr None \<Rightarrow> Inr out
      | Inr (Some doc) \<Rightarrow> decode_ArtifactCache doc out)"

subsection \<open>The functions of the cache\<close>

definition resolveCacheFile :: "'c platform \<Rightarrow> sys \<Rightarrow> string \<Rightarrow> sys \<times> string \<times> error option" where
  "resolveCacheFile P s file =
     (if file \<noteq> [] then
        (case VerifyOrCreateFile s file of (s', err) \<Rightarrow> (s', file, err))
      else
        (case homedir_Dir s of
           (s1, Inl err) \<Rightarrow> (s1, [], Some (Wrap err ''retrieving home directory''))
         | (s1, Inr h) \<Rightarrow>
             let defaultFile = filepath_Join P [h, DefaultSkaffoldDir P, DefaultCacheFile P]
             in (case VerifyOrCreateFile s1 defaultFile of (s', err) \<Rightarrow> (s', defaultFile, err))))"

definition retrieveArtifactCache ::
  "'c platform \<Rightarrow> sys \<Rightarrow> string \<Rightarrow> sys \<times> (error + ArtifactCache)" where
  "retrieveArtifactCache P s file =
     (let cache = ArtifactCache_of fmempty
      in case ioutil_ReadFile s file of
           (s', Inl err) \<Rightarrow> (s', Inl err)
         | (s', Inr contents) \<Rightarrow>
             (case yaml_Unmarshal P contents cache of
                Inl err \<Rightarrow> (s', Inl err)
              | Inr cache' \<Rightarrow> (s', Inr cache')))"


definition NewCache ::
  "'c platform \<Rightarrow> sys \<Rightarrow> RunContext \<Rightarrow> bool \<Rightarrow> 'd \<Rightarrow> sys \<times> (error + ('c, 'd) Cache)" where
  "NewCache P s runCtx local deps =
     (if \<not> CacheArtifacts (Opts runCtx) then (s, Inr noCache)
      else
        case resolveCacheFile P s (CacheFile (Opts runCtx)) of
          (s1, file, Some err) \<Rightarrow>
            (Warnf s1 ''Error resolving cache file, not using skaffold cache: %v'' err, Inr noCache)
        | (s1, file, None) \<Rightarrow>
            (case retrieveArtifactCache P s1 file of
               (s2, Inl err) \<Rightarrow>
                 (Warnf s2 ''Error retrieving artifact cache, not using skaffold cache: %v'' err,
                  Inr noCache)
             | (s2, Inr cache') \<Rightarrow>
                 (case newDockerClient P runCtx of
                    (cl, Some err) \<Rightarrow>
                      if local then (s2, Inl (Wrap err ''getting local Docker client''))
                      else (s2, Inr (realCache
                             \<lparr>artifactCache = cache', dependencies = deps, client = cl,
                              insecureRegistries = InsecureRegistries runCtx,
                              cacheFile = file, imagesAreLocal = local\<rparr>))
                  | (cl, None) \<Rightarrow>
                      (s2, Inr (realCache
                             \<lparr>artifactCache = cache', dependencies = deps, client = cl,
                              insecureRegistries = InsecureRegistries runCtx,
                              cacheFile = file, imagesAreLocal = local\<rparr>)))))"

text \<open>
  Modelled from the spec: the methods of \<^verbatim>\<open>noCache\<close> are not among the sources. The spec
  says of the no-op cache: it always reports "must build" and performs no I/O and keeps
  no state.
\<close>

datatype decision = MustBuild | Reused

definition noCache_resolve :: "sys \<Rightarrow> 'a \<Rightarrow> sys \<times> decision" where
  "noCache_resolve s artifact = (s, MustBuild)"

subsection \<open>A sample platform\<close>

text \<open>
  An instance of the parameters, for evaluating the functions on concrete inputs: an
  emitter and a parser for the block-style text of a cache whose keys and values are
  plain words, a join with slashes, the default path \<^verbatim>\<open>.skaffold/cache\<close>, and a Docker
  client that is created without error.
\<close>

definition newline :: char where
  "newline = CHR 0x0A"

definition sample_field :: "string \<times> yaml \<Rightarrow> string option" where
  "sample_field kv =
     (case snd kv of Scalar s \<Rightarrow> Some (''  '' @ fst kv @ '': '' @ s @ [newline]) | _ \<Rightarrow> None)"

definition sample_entry :: "string \<times> yaml \<Rightarrow> string option" where
  "sample_entry kv =
     (case snd kv of
        Mapping fs \<Rightarrow>
          (if sorted_list_of_fmap fs = [] then Some (fst kv @ '': {}'' @ [newline])
           else map_option (\<lambda>ls. fst kv @ '':'' @ [newline] @ concat ls)
                  (those (map sample_field (sorted_list_of_fmap fs))))
      | _ \<Rightarrow> None)"

definition sample_emit :: "yaml \<Rightarrow> error + string" where
  "sample_emit doc =
     (case doc of
        Mapping t \<Rightarrow>
          (if sorted_list_of_fmap t = [] then Inr (''{}'' @ [newline])
           else case those (map sample_entry (sorted_list_of_fmap t)) of
                  None \<Rightarrow> Inl (LibError ''sample: unsupported document'')
                | Some ls \<Rightarrow> Inr (concat ls))
      | _ \<Rightarrow> Inl (LibError ''sample: unsupported document''))"

definition splitLines :: "string \<Rightarrow> string list" where
  "splitLines s =
     foldr (\<lambda>c ls. if c = newline then [] # ls
                    else (case ls of [] \<Rightarrow> [[c]] | l # r \<Rightarrow> (c # l) # r)) s []"

datatype line = EntryOpen string | EntryEmpty string | FieldLine string string | BadLine

definition classify :: "string \<Rightarrow> line" where
  "classify l =
     (if take 2 l = ''  '' then
        (let k = takeWhile (\<lambda>c. c \<noteq> CHR '':'') (drop 2 l);
             v = dropWhile (\<lambda>c. c \<noteq> CHR '':'') (drop 2 l)
         in if k \<noteq> [] \<and> take 2 v = '': '' then FieldLine k (drop 2 v) else BadLine)
      else
        (let k = takeWhile (\<lambda>c. c \<noteq> CHR '':'') l;
             v = dropWhile (\<lambda>c. c \<noteq> CHR '':'') l
         in if k = [] then BadLine
            else if v = '':'' then EntryOpen k
            else if v = '': {}'' then EntryEmpty k
            else BadLine))"

fun build :: "line list \<Rightarrow> (string \<times> yaml) list \<Rightarrow> (string \<times> yaml) list option" where
  "build [] acc = Some acc"
| "build (EntryOpen k # ls) acc = build ls ((k, Null) # acc)"
| "build (EntryEmpty k # ls) acc = build ls ((k, Mapping fmempty) # acc)"
| "build (FieldLine n v # ls) ((k, Null) # acc) =
     build ls ((k, Mapping (fmupd n (Scalar v) fmempty)) # acc)"
| "build (FieldLine n v # ls) ((k, Mapping fs) # acc) =
     (if fs = fmempty then None else build ls ((k, Mapping (fmupd n (Scalar v) fs)) # acc))"
| "build _ acc = None"

definition sample_parse :: "string \<Rightarrow> error + yaml option" where
  "sample_parse data =
     (if data = [] then Inr None
      else if data = ''{}'' @ [newline] then Inr (Some (Mapping fmempty))
      else case build (map classify (splitLines data)) [] of
             None \<Rightarrow> Inl (LibError ''sample: syntax error'')
           | Some acc \<Rightarrow> Inr (Some (Mapping (fmap_of_list acc))))"

fun sample_Join :: "string list \<Rightarrow> string" where
  "sample_Join [] = []"
| "sample_Join [p] = p"
| "sample_Join (p # ps) = p @ ''/'' @ sample_Join ps"

definition samplePlatform :: "FakeAPIClient option platform" where
  "samplePlatform =
     \<lparr>yaml_emit = sample_emit, yaml_parse = sample_parse, filepath_Join = sample_Join,
      DefaultSkaffoldDir = ''.skaffold'', DefaultCacheFile = ''cache'',
      newDockerClient = (\<lambda>runCtx. (Some zeroClient, None))\<rparr>"

text \<open>The same platform with a Docker client that cannot be created.\<close>

definition noDaemonPlatform :: "FakeAPIClient option platform" where
  "noDaemonPlatform =
     samplePlatform\<lparr>newDockerClient := (\<lambda>runCtx. (None, Some (Errorf ''cannot connect to the daemon'')))\<rparr>"

text \<open>A state with no files in which every path can be opened, and two run contexts.\<close>

definition sampleSys :: sys where
  "sampleSys =
     \<lparr>files = Map.empty, denied = (\<lambda>p. False), home = Inr ''/home/user'', io = [], warnings = []\<rparr>"

definition cachingCtx :: "string \<Rightarrow> RunContext" where
  "cachingCtx file =
     \<lparr>Opts = \<lparr>CacheArtifacts = True, CacheFile = file\<rparr>, InsecureRegistries = fmempty\<rparr>"

definition noCachingCtx :: "string \<Rightarrow> RunContext" where
  "noCachingCtx file =
     \<lparr>Opts = \<lparr>CacheArtifacts = False, CacheFile = file\<rparr>, InsecureRegistries = fmempty\<rparr>"




definition taggedClient :: FakeAPIClient where
  "taggedClient = zeroClient\<lparr>TagToImageID := Some [(''img:tag'', ''sha256:1'')]\<rparr>"

definition crossedClient :: FakeAPIClient where
  "crossedClient = zeroClient\<lparr>TagToImageID := Some [(''a'', ''b''), (''src'', ''sha256:1'')]\<rparr>"

section \<open>Properties of the fake daemon client\<close>

lemma findImage_None:
  "findImage ref al = None \<longleftrightarrow> (\<forall>(tag, imageID) \<in> set al. tag \<noteq> ref \<and> imageID \<noteq> ref)"
  by (induction ref al rule: findImage.induct) auto

lemma findImage_Some:
  "findImage ref al = Some imageID \<Longrightarrow>
     \<exists>tag. (tag, imageID) \<in> set al \<and> (tag = ref \<or> imageID = ref)"
  by (induction ref al rule: findImage.induct) (auto split: if_splits)

text \<open>
  C6. Inspecting distinguishes an unknown image from a failed call: with the forced
  failure unset and no entry whose tag or image id is the reference, the result is the
  not-found error, which satisfies \<open>NotFound\<close>; with the forced failure set the result is
  an ordinary error, which does not satisfy it. With the forced failure unset and some
  entry matching, the result is no error but the image id of a matching entry.
\<close>

theorem inspect_notfound_vs_failure:
  "(\<not> ErrImageInspect f \<and> (\<forall>(tag, imageID) \<in> set (entries (TagToImageID f)). tag \<noteq> ref \<and> imageID \<noteq> ref)
      \<longrightarrow> (\<exists>e. ImageInspectWithRaw f ref = Inl e \<and> NotFound e))
   \<and> (ErrImageInspect f
      \<longrightarrow> (\<exists>e. ImageInspectWithRaw f ref = Inl e \<and> \<not> NotFound e))
   \<and> (\<not> ErrImageInspect f \<and> (\<exists>(tag, imageID) \<in> set (entries (TagToImageID f)). tag = ref \<or> imageID = ref)
      \<longrightarrow> (\<exists>i raw tag. ImageInspectWithRaw f ref = Inr (i, raw)
             \<and> (tag, InspectID i) \<in> set (entries (TagToImageID f))
             \<and> (tag = ref \<or> InspectID i = ref)))"
proof (intro conjI impI)
  assume "\<not> ErrImageInspect f \<and> (\<forall>(tag, imageID) \<in> set (entries (TagToImageID f)). tag \<noteq> ref \<and> imageID \<noteq> ref)"
  then have "\<not> ErrImageInspect f" and "findImage ref (entries (TagToImageID f)) = None"
    by (simp_all add: findImage_None)
  then have "ImageInspectWithRaw f ref = Inl notFoundError"
    by (simp add: ImageInspectWithRaw_def)
  then show "\<exists>e. ImageInspectWithRaw f ref = Inl e \<and> NotFound e"
    by simp
next
  assume "ErrImageInspect f"
  then have "ImageInspectWithRaw f ref = Inl (Errorf '''')"
    by (simp add: ImageInspectWithRaw_def)
  then show "\<exists>e. ImageInspectWithRaw f ref = Inl e \<and> \<not> NotFound e"
    by simp
next
  assume a: "\<not> ErrImageInspect f \<and> (\<exists>(tag, imageID) \<in> set (entries (TagToImageID f)). tag = ref \<or> imageID = ref)"
  then have "findImage ref (entries (TagToImageID f)) \<noteq> None"
    by (auto simp: findImage_None)
  then obtain imageID where i: "findImage ref (entries (TagToImageID f)) = Some imageID"
    by auto
  from findImage_Some [OF i] obtain tag where
    "(tag, imageID) \<in> set (entries (TagToImageID f))" "tag = ref \<or> imageID = ref"
    by blast
  with a i show "\<exists>i raw tag. ImageInspectWithRaw f ref = Inr (i, raw)
             \<and> (tag, InspectID i) \<in> set (entries (TagToImageID f))
             \<and> (tag = ref \<or> InspectID i = ref)"
    by (auto simp: ImageInspectWithRaw_def)
qed

theorem inspect_notfound_vs_failure_witness:
  "(\<exists>e. ImageInspectWithRaw (zeroClient\<lparr>TagToImageID := Some [(''img:tag'', ''sha256:1'')]\<rparr>) ''other'' = Inl e
        \<and> NotFound e)
   \<and> (\<exists>e. ImageInspectWithRaw
            (zeroClient\<lparr>TagToImageID := Some [(''img:tag'', ''sha256:1'')], ErrImageInspect := True\<rparr>)
            ''img:tag'' = Inl e
        \<and> \<not> NotFound e)
   \<and> (\<exists>i raw. ImageInspectWithRaw (zeroClient\<lparr>TagToImageID := Some [(''img:tag'', ''sha256:1'')]\<rparr>) ''img:tag''
          = Inr (i, raw) \<and> InspectID i = ''sha256:1'')"
  using inspect_notfound_vs_failure
          [of "zeroClient\<lparr>TagToImageID := Some [(''img:tag'', ''sha256:1'')]\<rparr>" "''other''"]
        inspect_notfound_vs_failure
          [of "zeroClient\<lparr>TagToImageID := Some [(''img:tag'', ''sha256:1'')], ErrImageInspect := True\<rparr>"
              "''img:tag''"]
        inspect_notfound_vs_failure
          [of "zeroClient\<lparr>TagToImageID := Some [(''img:tag'', ''sha256:1'')]\<rparr>" "''img:tag''"]
  by (auto simp: zeroClient_def entries_def)

lemma lookup_update:
  "lookup (Some (AList.update k v al)) k' = (if k' = k then Some v else map_of al k')"
  by (simp add: lookup_def entries_def update_conv')

lemma findImage_key:
  "map_of al k = Some v \<Longrightarrow> findImage k al \<noteq> None"
  by (induction k al rule: findImage.induct) (auto split: if_splits)

lemma findImage_is_key:
  "map_of al k = Some v \<Longrightarrow> \<forall>(t, i) \<in> set al. i = k \<longrightarrow> t = k \<or> i = v \<Longrightarrow>
     findImage k al = Some v"
  by (induction k al rule: findImage.induct) (auto split: if_splits)

lemma set_update_cases:
  "(t, i) \<in> set (AList.update k v al) \<Longrightarrow> (t, i) = (k, v) \<or> (t, i) \<in> set al"
  by (induction al) (auto split: if_splits)

lemma findImage_after_update:
  assumes "\<forall>(t, i) \<in> set al. i \<noteq> k"
  shows "findImage k (AList.update k v al) = Some v"
proof (rule findImage_is_key)
  show "map_of (AList.update k v al) k = Some v"
    by (simp add: update_conv')
  show "\<forall>(t, i) \<in> set (AList.update k v al). i = k \<longrightarrow> t = k \<or> i = v"
    using assms by (auto dest: set_update_cases)
qed

lemma findImage_closed:
  assumes "\<forall>(t, i) \<in> set al. map_of al i \<noteq> None"
  shows "findImage k al = None \<longleftrightarrow> map_of al k = None"
proof
  assume "findImage k al = None"
  then show "map_of al k = None"
    using findImage_key [of al k] by (cases "map_of al k") auto
next
  assume n: "map_of al k = None"
  show "findImage k al = None"
  proof (rule ccontr)
    assume "findImage k al \<noteq> None"
    then obtain v where "findImage k al = Some v" by auto
    from findImage_Some [OF this] obtain t where t: "(t, v) \<in> set al" "t = k \<or> v = k"
      by blast
    from t(1) have "map_of al t \<noteq> None"
      by (metis map_of_eq_None_iff image_eqI fst_conv)
    moreover from t(1) assms have "map_of al v \<noteq> None"
      by auto
    ultimately show False using t(2) n by auto
  qed
qed

text \<open>
  C7, as the code has it. With no forced tag failure, tagging fails exactly when the
  source reference is not a key of the table; a source that is only the image id of
  some tag is rejected. A key is always found by inspect, and on a table in which every
  image id is also a key, tagging fails exactly when inspect finds nothing for the
  source. When tagging succeeds, the target is a key with the image id of the source,
  every other key keeps its image id, the target is recorded as tagged, and inspecting
  the target finds an image; it finds the image id of the source if no entry had the
  target as its image id before.
\<close>

theorem tag_fails_iff_unknown:
  assumes "\<not> ErrImageTag f"
  shows "(snd (ImageTag f src tgt) \<noteq> None \<longleftrightarrow> lookup (TagToImageID f) src = None)
       \<and> (lookup (TagToImageID f) src \<noteq> None \<longrightarrow> findImage src (entries (TagToImageID f)) \<noteq> None)
       \<and> ((\<forall>(t, i) \<in> set (entries (TagToImageID f)). lookup (TagToImageID f) i \<noteq> None) \<longrightarrow>
            (snd (ImageTag f src tgt) \<noteq> None \<longleftrightarrow> findImage src (entries (TagToImageID f)) = None))
       \<and> (snd (ImageTag f src tgt) = None \<longrightarrow>
            lookup (TagToImageID (fst (ImageTag f src tgt))) tgt = lookup (TagToImageID f) src
          \<and> lookup (TagToImageID (fst (ImageTag f src tgt))) tgt \<noteq> None
          \<and> (\<forall>k. k \<noteq> tgt \<longrightarrow>
                lookup (TagToImageID (fst (ImageTag f src tgt))) k = lookup (TagToImageID f) k)
          \<and> Tagged (fst (ImageTag f src tgt)) = Tagged f @ [tgt]
          \<and> findImage tgt (entries (TagToImageID (fst (ImageTag f src tgt)))) \<noteq> None
          \<and> ((\<forall>(t, i) \<in> set (entries (TagToImageID f)). i \<noteq> tgt) \<longrightarrow>
                findImage tgt (entries (TagToImageID (fst (ImageTag f src tgt))))
                  = lookup (TagToImageID f) src))"
proof -
  have fails: "snd (ImageTag f src tgt) \<noteq> None \<longleftrightarrow> lookup (TagToImageID f) src = None"
    using assms by (simp add: ImageTag_def split: option.splits)
  have known: "lookup (TagToImageID f) src \<noteq> None \<longrightarrow> findImage src (entries (TagToImageID f)) \<noteq> None"
    using findImage_key [of "entries (TagToImageID f)" src] by (auto simp: lookup_def)
  have closed: "(\<forall>(t, i) \<in> set (entries (TagToImageID f)). lookup (TagToImageID f) i \<noteq> None) \<longrightarrow>
            (snd (ImageTag f src tgt) \<noteq> None \<longleftrightarrow> findImage src (entries (TagToImageID f)) = None)"
    using fails findImage_closed [of "entries (TagToImageID f)" src] by (simp add: lookup_def)
  have success: "snd (ImageTag f src tgt) = None \<longrightarrow>
            lookup (TagToImageID (fst (ImageTag f src tgt))) tgt = lookup (TagToImageID f) src
          \<and> lookup (TagToImageID (fst (ImageTag f src tgt))) tgt \<noteq> None
          \<and> (\<forall>k. k \<noteq> tgt \<longrightarrow>
                lookup (TagToImageID (fst (ImageTag f src tgt))) k = lookup (TagToImageID f) k)
          \<and> Tagged (fst (ImageTag f src tgt)) = Tagged f @ [tgt]
          \<and> findImage tgt (entries (TagToImageID (fst (ImageTag f src tgt)))) \<noteq> None
          \<and> ((\<forall>(t, i) \<in> set (entries (TagToImageID f)). i \<noteq> tgt) \<longrightarrow>
                findImage tgt (entries (TagToImageID (fst (ImageTag f src tgt))))
                  = lookup (TagToImageID f) src)"
  proof (cases "lookup (TagToImageID f) src")
    case None
    with assms show ?thesis
      by (simp add: ImageTag_def)
  next
    case (Some imageID)
    with assms have t: "ImageTag f src tgt =
        (f\<lparr>TagToImageID := Some (AList.update tgt imageID (entries (TagToImageID f))),
           Tagged := Tagged f @ [tgt]\<rparr>, None)"
      by (simp add: ImageTag_def)
    have "map_of (AList.update tgt imageID (entries (TagToImageID f))) tgt = Some imageID"
      by (simp add: update_conv')
    then have found: "findImage tgt (AList.update tgt imageID (entries (TagToImageID f))) \<noteq> None"
      by (rule findImage_key)
    have same: "(\<forall>(t, i) \<in> set (entries (TagToImageID f)). i \<noteq> tgt) \<longrightarrow>
        findImage tgt (AList.update tgt imageID (entries (TagToImageID f))) = Some imageID"
      using findImage_after_update [of "entries (TagToImageID f)" tgt imageID] by blast
    have e: "entries (Some (AList.update tgt imageID (entries (TagToImageID f))))
               = AList.update tgt imageID (entries (TagToImageID f))"
      by (simp add: entries_def)
    from t Some found same e show ?thesis
      by (simp add: lookup_update) (simp add: lookup_def)
  qed
  from fails known closed success show ?thesis by blast
qed

theorem tag_fails_iff_unknown_witness:
  "snd (ImageTag taggedClient ''img:tag'' ''img:new'') = None
   \<and> lookup (TagToImageID (fst (ImageTag taggedClient ''img:tag'' ''img:new''))) ''img:new'' = Some ''sha256:1''
   \<and> findImage ''img:new'' (entries (TagToImageID (fst (ImageTag taggedClient ''img:tag'' ''img:new''))))
       = Some ''sha256:1''
   \<and> snd (ImageTag taggedClient ''gone'' ''img:new'') \<noteq> None"
  using tag_fails_iff_unknown [of taggedClient "''img:tag''" "''img:new''"]
        tag_fails_iff_unknown [of taggedClient "''gone''" "''img:new''"]
  by (simp add: taggedClient_def zeroClient_def lookup_def entries_def)

text \<open>
  Inputs at which the statement about the daemon's own notions does not hold, with no
  forced failure. The daemon knows \<^verbatim>\<open>sha256:1\<close>, inspect finds it as the image id of a
  tag, and yet tagging it fails. And after \<^verbatim>\<open>src\<close> is tagged as \<^verbatim>\<open>b\<close>, where \<^verbatim>\<open>b\<close> was
  already the image id of the tag \<^verbatim>\<open>a\<close>, inspecting \<^verbatim>\<open>b\<close> with the entry of \<^verbatim>\<open>a\<close> visited
  first yields the image id \<^verbatim>\<open>b\<close>, not that of \<^verbatim>\<open>src\<close>.
\<close>

theorem tag_known_by_inspect_counterexample:
  "\<not> ErrImageTag taggedClient
   \<and> ImageInspectWithRaw taggedClient ''sha256:1''
       = Inr (\<lparr>InspectID = ''sha256:1'', InspectRepoDigests = []\<rparr>,
              ''{'' @ [CHR 0x22] @ ''Config'' @ [CHR 0x22] @ '':{'' @ [CHR 0x22] @ ''Image'' @ [CHR 0x22]
                @ '':'' @ [CHR 0x22] @ ''sha256:1'' @ [CHR 0x22] @ ''}}'')
   \<and> snd (ImageTag taggedClient ''sha256:1'' ''img:new'')
       = Some (ImageNotFound ''sha256:1'' (Some [(''img:tag'', ''sha256:1'')]))
   \<and> \<not> ErrImageTag crossedClient
   \<and> snd (ImageTag crossedClient ''src'' ''b'') = None
   \<and> ImageInspectWithRaw crossedClient ''src''
       = Inr (\<lparr>InspectID = ''sha256:1'', InspectRepoDigests = []\<rparr>,
              ''{'' @ [CHR 0x22] @ ''Config'' @ [CHR 0x22] @ '':{'' @ [CHR 0x22] @ ''Image'' @ [CHR 0x22]
                @ '':'' @ [CHR 0x22] @ ''sha256:1'' @ [CHR 0x22] @ ''}}'')
   \<and> ImageInspectWithRaw (fst (ImageTag crossedClient ''src'' ''b'')) ''b''
       = Inr (\<lparr>InspectID = ''b'', InspectRepoDigests = []\<rparr>,
              ''{'' @ [CHR 0x22] @ ''Config'' @ [CHR 0x22] @ '':{'' @ [CHR 0x22] @ ''Image'' @ [CHR 0x22]
                @ '':'' @ [CHR 0x22] @ ''b'' @ [CHR 0x22] @ ''}}'')"
  by (simp add: taggedClient_def crossedClient_def zeroClient_def ImageInspectWithRaw_def
                ImageTag_def lookup_def entries_def)

lemma length_hex: "length (hex w) = 64"
  by (simp add: hex_def)

lemma slice0_hex: "slice0 (hex w) 64 = Some (hex w)"
  by (simp add: slice0_def length_hex)

lemma run_forced:
  "operationOf c = op \<Longrightarrow> run sha (setOnly op f) c = (setOnly op f, Inl (Errorf ''''))"
  by (cases c)
     (auto simp: setOnly_def ImageBuild_def ImageInspectWithRaw_def ImageTag_def
                 ImagePush_def ImagePull_def)

lemma run_unforced_result:
  "operationOf c \<noteq> op \<Longrightarrow> snd (run sha (setOnly op f) c) = snd (run sha (clearAll f) c)"
  by (cases c)
     (auto simp: setOnly_def clearAll_def ImageBuild_def ImageInspectWithRaw_def ImageTag_def
                 ImagePush_def ImagePull_def Let_def body_def slice0_hex
           split: option.splits)

lemma run_unforced_state:
  "operationOf c \<noteq> op \<Longrightarrow> clearAll (fst (run sha (setOnly op f) c)) = fst (run sha (clearAll f) c)"
  by (cases c)
     (auto simp: setOnly_def clearAll_def ImageBuild_def ImageInspectWithRaw_def ImageTag_def
                 ImagePush_def ImagePull_def Let_def body_def slice0_hex
           split: option.splits)

lemma run_clear_succeeds:
  "\<not> isl (snd (run sha (clearAll f) c)) \<longleftrightarrow> succeedsUnforced f c"
  by (cases c)
     (auto simp: clearAll_def ImageBuild_def ImageInspectWithRaw_def ImageTag_def
                 ImagePush_def ImagePull_def Let_def slice0_hex isl_map_sum
           split: option.splits)

text \<open>
  C8. Each of build, inspect, tag, push and pull has a failure flag of its own. On the
  client with exactly the flag of \<open>op\<close> set, every call of \<open>op\<close> fails and leaves the
  client as it is; a call of any other operation returns what it returns on the client
  with no flag set and changes the client in the same way. With no flag set, build, push
  and pull always succeed, inspect succeeds when an entry has the reference as tag or
  image id, and tag succeeds when the source is a known reference.
\<close>

theorem failure_flags_independent:
  "(operationOf c = op \<longrightarrow>
      run sha (setOnly op f) c = (setOnly op f, Inl (Errorf '''')))
   \<and> (operationOf c \<noteq> op \<longrightarrow>
        snd (run sha (setOnly op f) c) = snd (run sha (clearAll f) c)
      \<and> clearAll (fst (run sha (setOnly op f) c)) = fst (run sha (clearAll f) c)
      \<and> (\<not> isl (snd (run sha (setOnly op f) c)) \<longleftrightarrow> succeedsUnforced f c))"
  using run_forced [of c op sha f] run_unforced_result [of c op sha f]
        run_unforced_state [of c op sha f] run_clear_succeeds [of sha f c]
  by simp

theorem failure_flags_independent_witness:
  "run (\<lambda>bytes. 0) (setOnly Tag (zeroClient\<lparr>TagToImageID := Some [(''img:tag'', ''sha256:1'')]\<rparr>))
       (TagCall ''img:tag'' ''img:new'')
     = (setOnly Tag (zeroClient\<lparr>TagToImageID := Some [(''img:tag'', ''sha256:1'')]\<rparr>), Inl (Errorf ''''))
   \<and> \<not> isl (snd (run (\<lambda>bytes. 0) (setOnly Tag (zeroClient\<lparr>TagToImageID := Some [(''img:tag'', ''sha256:1'')]\<rparr>))
                   (InspectCall ''img:tag'')))
   \<and> \<not> isl (snd (run (\<lambda>bytes. 0) (setOnly Tag (zeroClient\<lparr>TagToImageID := Some [(''img:tag'', ''sha256:1'')]\<rparr>))
                   (PullCall ''img:tag'')))"
  using failure_flags_independent
          [of "TagCall ''img:tag'' ''img:new''" Tag "\<lambda>bytes. 0"
              "zeroClient\<lparr>TagToImageID := Some [(''img:tag'', ''sha256:1'')]\<rparr>"]
        failure_flags_independent
          [of "InspectCall ''img:tag''" Tag "\<lambda>bytes. 0"
              "zeroClient\<lparr>TagToImageID := Some [(''img:tag'', ''sha256:1'')]\<rparr>"]
        failure_flags_independent
          [of "PullCall ''img:tag''" Tag "\<lambda>bytes. 0"
              "zeroClient\<lparr>TagToImageID := Some [(''img:tag'', ''sha256:1'')]\<rparr>"]
  by (simp add: zeroClient_def entries_def setOnly_def clearAll_def ImageInspectWithRaw_def
                ImagePull_def ImageTag_def)
section \<open>Properties of the cache\<close>

lemma resolve_cases:
  "resolveCacheFile P s file = (s', path, err) \<Longrightarrow>
     (file \<noteq> [] \<and> path = file \<and> VerifyOrCreateFile s file = (s', err))
   \<or> (file = [] \<and> (\<exists>e. home s = Inl e) \<and> path = [] \<and> err \<noteq> None
        \<and> s' = s\<lparr>io := io s @ [EvHomeDir]\<rparr>)
   \<or> (file = [] \<and> (\<exists>h. home s = Inr h
        \<and> path = filepath_Join P [h, DefaultSkaffoldDir P, DefaultCacheFile P])
        \<and> VerifyOrCreateFile (s\<lparr>io := io s @ [EvHomeDir]\<rparr>) path = (s', err))"
  by (auto simp: resolveCacheFile_def homedir_Dir_def Let_def split: if_splits prod.splits sum.splits)

lemma verify_files:
  "VerifyOrCreateFile s p = (s', err) \<Longrightarrow>
     (err = None \<longleftrightarrow> files s p \<noteq> None \<or> \<not> denied s p)
   \<and> (err = None \<longrightarrow> files s' p = Some (case files s p of None \<Rightarrow> [] | Some c \<Rightarrow> c))
   \<and> (\<forall>q c. files s q = Some c \<longrightarrow> files s' q = Some c)
   \<and> (\<forall>q. q \<noteq> p \<longrightarrow> files s' q = files s q)
   \<and> denied s' = denied s \<and> warnings s' = warnings s \<and> home s' = home s"
  by (auto simp: VerifyOrCreateFile_def split: option.splits if_splits)

text \<open>
  C4. \<^verbatim>\<open>resolveCacheFile\<close> returns the explicit path when one is given, and otherwise the
  fixed default path, joined from the home directory and the two constants. It succeeds
  exactly when that path names a file or can be created (and, for the default, the home
  directory is known); then the file exists afterwards, empty if it was absent and with
  its contents if it was there. No file that existed is removed or changed, and no other
  path is touched.
\<close>

theorem resolveCacheFile_path:
  assumes "resolveCacheFile P s file = (s', path, err)"
  shows "(file \<noteq> [] \<longrightarrow> path = file)
       \<and> (file = [] \<longrightarrow> (\<forall>h. home s = Inr h \<longrightarrow>
             path = filepath_Join P [h, DefaultSkaffoldDir P, DefaultCacheFile P]))
       \<and> (err = None \<longleftrightarrow> (file \<noteq> [] \<or> \<not> isl (home s)) \<and> (files s path \<noteq> None \<or> \<not> denied s path))
       \<and> (err = None \<longrightarrow> files s' path = Some (case files s path of None \<Rightarrow> [] | Some c \<Rightarrow> c))
       \<and> (\<forall>q c. files s q = Some c \<longrightarrow> files s' q = Some c)
       \<and> (\<forall>q. q \<noteq> path \<longrightarrow> files s' q = files s q)"
  using resolve_cases [OF assms]
proof (elim disjE conjE exE)
  assume a: "file \<noteq> []" "path = file" "VerifyOrCreateFile s file = (s', err)"
  from verify_files [OF a(3)] a(1,2) show ?thesis by simp
next
  fix e assume a: "file = []" "home s = Inl e" "path = []" "err \<noteq> None" "s' = s\<lparr>io := io s @ [EvHomeDir]\<rparr>"
  then show ?thesis by auto
next
  fix h assume a: "file = []" "home s = Inr h"
    "path = filepath_Join P [h, DefaultSkaffoldDir P, DefaultCacheFile P]"
    "VerifyOrCreateFile (s\<lparr>io := io s @ [EvHomeDir]\<rparr>) path = (s', err)"
  from verify_files [OF a(4)] a(1,2,3) show ?thesis by simp
qed

theorem resolveCacheFile_path_witness:
  "fst (snd (resolveCacheFile samplePlatform sampleSys [])) = ''/home/user/.skaffold/cache''
   \<and> files (fst (resolveCacheFile samplePlatform sampleSys [])) ''/home/user/.skaffold/cache'' = Some []
   \<and> fst (snd (resolveCacheFile samplePlatform (sampleSys\<lparr>files := [''/tmp/cache'' \<mapsto> ''e: {}'']\<rparr>) ''/tmp/cache''))
       = ''/tmp/cache''
   \<and> files (fst (resolveCacheFile samplePlatform (sampleSys\<lparr>files := [''/tmp/cache'' \<mapsto> ''e: {}'']\<rparr>) ''/tmp/cache''))
       ''/tmp/cache'' = Some ''e: {}''"
  using resolveCacheFile_path
          [of samplePlatform sampleSys "[]"
              "fst (resolveCacheFile samplePlatform sampleSys [])"
              "fst (snd (resolveCacheFile samplePlatform sampleSys []))"
              "snd (snd (resolveCacheFile samplePlatform sampleSys []))"]
        resolveCacheFile_path
          [of samplePlatform "sampleSys\<lparr>files := [''/tmp/cache'' \<mapsto> ''e: {}'']\<rparr>" "''/tmp/cache''"
              "fst (resolveCacheFile samplePlatform (sampleSys\<lparr>files := [''/tmp/cache'' \<mapsto> ''e: {}'']\<rparr>) ''/tmp/cache'')"
              "fst (snd (resolveCacheFile samplePlatform (sampleSys\<lparr>files := [''/tmp/cache'' \<mapsto> ''e: {}'']\<rparr>) ''/tmp/cache''))"
              "snd (snd (resolveCacheFile samplePlatform (sampleSys\<lparr>files := [''/tmp/cache'' \<mapsto> ''e: {}'']\<rparr>) ''/tmp/cache''))"]
  by (simp add: sampleSys_def samplePlatform_def resolveCacheFile_def homedir_Dir_def
                VerifyOrCreateFile_def Let_def)

text \<open>
  C5. When caching is disabled (\<^verbatim>\<open>CacheArtifacts\<close> false), \<^verbatim>\<open>NewCache\<close> returns the no-op
  cache and leaves the state as it was: no file operation is performed, so the cache
  file is neither resolved nor loaded, and nothing is logged. The no-op cache reports
  "must build" for every artifact in every state and leaves the state as it was.
\<close>

theorem disabled_cache_is_noop:
  assumes "\<not> CacheArtifacts (Opts runCtx)"
  shows "NewCache P s runCtx local deps = (s, Inr noCache)
       \<and> noCache_resolve s' artifact = (s', MustBuild)"
  using assms by (simp add: NewCache_def noCache_resolve_def)

theorem disabled_cache_is_noop_witness:
  "NewCache samplePlatform sampleSys (noCachingCtx ''/tmp/cache'') True () = (sampleSys, Inr noCache)
   \<and> noCache_resolve sampleSys ''artifact'' = (sampleSys, MustBuild)"
  using disabled_cache_is_noop
          [of "noCachingCtx ''/tmp/cache''" samplePlatform sampleSys True "()" sampleSys "''artifact''"]
  by (simp add: noCachingCtx_def)

lemma retrieve_result:
  "retrieveArtifactCache P s p =
     (s\<lparr>io := io s @ [EvReadFile p]\<rparr>,
      case files s p of
        None \<Rightarrow> Inl (PathError ''open'' p)
      | Some c \<Rightarrow> if denied s p then Inl (PathError ''open'' p)
                  else yaml_Unmarshal P c (ArtifactCache_of fmempty))"
  by (auto simp: retrieveArtifactCache_def ioutil_ReadFile_def Let_def split: option.splits sum.splits)

lemma unmarshal_fails_iff:
  "isl (yaml_Unmarshal P c out) \<longleftrightarrow>
     isl (yaml_parse P c) \<or> (\<exists>doc. yaml_parse P c = Inr (Some doc) \<and> isl (decode_ArtifactCache doc out))"
  by (auto simp: yaml_Unmarshal_def split: sum.splits option.splits)

lemma retrieve_fails_iff:
  "isl (snd (retrieveArtifactCache P s p)) \<longleftrightarrow>
     files s p = None \<or> denied s p
   \<or> (\<exists>c. files s p = Some c \<and> isl (yaml_Unmarshal P c (ArtifactCache_of fmempty)))"
  by (auto simp: retrieve_result split: option.splits)

lemma resolve_keeps_warnings:
  "resolveCacheFile P s file = (s', path, err) \<Longrightarrow> warnings s' = warnings s"
  by (drule resolve_cases) (auto dest: verify_files)

lemma sample_parse_flow: "sample_parse ''k: [1, 2]'' = Inl (LibError ''sample: syntax error'')"
  by code_simp

lemma resolved_file_exists:
  "resolveCacheFile P s file = (s1, path, None) \<Longrightarrow> files s1 path \<noteq> None"
  by (drule resolve_cases) (auto dest: verify_files)

text \<open>
  C2, as the code has it. With caching enabled, \<^verbatim>\<open>NewCache\<close> returns the no-op cache and
  no error whenever \<^verbatim>\<open>resolveCacheFile\<close> fails, and whenever the resolved file cannot be
  read or \<^verbatim>\<open>Unmarshal\<close> returns an error for its contents; the files stay as resolution
  left them, and one warning is logged. \<^verbatim>\<open>Unmarshal\<close> returns an error exactly when the
  contents do not parse or parse to a document of the wrong shape. A file that is
  missing is not among these cases: after a resolution without error the file exists.
\<close>

theorem load_failure_disables_cache:
  "(CacheArtifacts (Opts runCtx)
       \<and> resolveCacheFile P s (CacheFile (Opts runCtx)) = (s1, file, err)
       \<and> (err \<noteq> None \<or> denied s1 file
          \<or> (\<exists>c. files s1 file = Some c \<and> isl (yaml_Unmarshal P c (ArtifactCache_of fmempty))))
      \<longrightarrow> snd (NewCache P s runCtx local deps) = Inr noCache
        \<and> files (fst (NewCache P s runCtx local deps)) = files s1
        \<and> (\<exists>format e. warnings (fst (NewCache P s runCtx local deps)) = warnings s @ [(format, e)]))
   \<and> (isl (yaml_Unmarshal P c out) \<longleftrightarrow>
         isl (yaml_parse P c)
       \<or> (\<exists>doc. yaml_parse P c = Inr (Some doc) \<and> isl (decode_ArtifactCache doc out)))
   \<and> (resolveCacheFile P s (CacheFile (Opts runCtx)) = (s1, file, None) \<longrightarrow> files s1 file \<noteq> None)"
proof (intro conjI)
  have "snd (NewCache P s runCtx local deps) = Inr noCache
        \<and> files (fst (NewCache P s runCtx local deps)) = files s1
        \<and> (\<exists>format e. warnings (fst (NewCache P s runCtx local deps)) = warnings s @ [(format, e)])"
    if a: "CacheArtifacts (Opts runCtx)
       \<and> resolveCacheFile P s (CacheFile (Opts runCtx)) = (s1, file, err)
       \<and> (err \<noteq> None \<or> denied s1 file
          \<or> (\<exists>c. files s1 file = Some c \<and> isl (yaml_Unmarshal P c (ArtifactCache_of fmempty))))"
  proof (cases err)
    case (Some e)
    with a resolve_keeps_warnings [of P s "CacheFile (Opts runCtx)" s1 "file" "err"] show ?thesis
      by (simp add: NewCache_def Warnf_def)
  next
    case None
    with a have "isl (snd (retrieveArtifactCache P s1 file))"
      unfolding retrieve_fails_iff by blast
    then obtain e where e: "snd (retrieveArtifactCache P s1 file) = Inl e"
      by (cases "snd (retrieveArtifactCache P s1 file)") auto
    have "fst (retrieveArtifactCache P s1 file) = s1\<lparr>io := io s1 @ [EvReadFile file]\<rparr>"
      by (simp add: retrieve_result)
    with e have "retrieveArtifactCache P s1 file = (s1\<lparr>io := io s1 @ [EvReadFile file]\<rparr>, Inl e)"
      by (metis prod.collapse)
    with None a resolve_keeps_warnings [of P s "CacheFile (Opts runCtx)" s1 "file" "err"] show ?thesis
      by (simp add: NewCache_def Warnf_def)
  qed
  then show "CacheArtifacts (Opts runCtx)
       \<and> resolveCacheFile P s (CacheFile (Opts runCtx)) = (s1, file, err)
       \<and> (err \<noteq> None \<or> denied s1 file
          \<or> (\<exists>c. files s1 file = Some c \<and> isl (yaml_Unmarshal P c (ArtifactCache_of fmempty))))
      \<longrightarrow> snd (NewCache P s runCtx local deps) = Inr noCache
        \<and> files (fst (NewCache P s runCtx local deps)) = files s1
        \<and> (\<exists>format e. warnings (fst (NewCache P s runCtx local deps)) = warnings s @ [(format, e)])"
    by blast
next
  show "isl (yaml_Unmarshal P c out) \<longleftrightarrow>
         isl (yaml_parse P c)
       \<or> (\<exists>doc. yaml_parse P c = Inr (Some doc) \<and> isl (decode_ArtifactCache doc out))"
    by (rule unmarshal_fails_iff)
next
  show "resolveCacheFile P s (CacheFile (Opts runCtx)) = (s1, file, None) \<longrightarrow> files s1 file \<noteq> None"
    using resolved_file_exists by blast
qed

theorem load_failure_disables_cache_witness:
  "snd (NewCache samplePlatform (sampleSys\<lparr>files := [''/tmp/cache'' \<mapsto> ''k: [1, 2]'']\<rparr>)
            (cachingCtx ''/tmp/cache'') True ()) = Inr noCache
   \<and> snd (NewCache samplePlatform (sampleSys\<lparr>files := [''/tmp/cache'' \<mapsto> []], denied := (\<lambda>p. True)\<rparr>)
            (cachingCtx ''/tmp/cache'') True ()) = Inr noCache
   \<and> snd (NewCache samplePlatform (sampleSys\<lparr>denied := (\<lambda>p. True)\<rparr>)
            (cachingCtx ''/tmp/cache'') True ()) = Inr noCache"
  using load_failure_disables_cache
          [of "cachingCtx ''/tmp/cache''" samplePlatform
              "sampleSys\<lparr>files := [''/tmp/cache'' \<mapsto> ''k: [1, 2]'']\<rparr>"
              "sampleSys\<lparr>files := [''/tmp/cache'' \<mapsto> ''k: [1, 2]''],
                         io := [EvVerifyOrCreateFile ''/tmp/cache'']\<rparr>"
              "''/tmp/cache''" None True "()"]
        load_failure_disables_cache
          [of "cachingCtx ''/tmp/cache''" samplePlatform
              "sampleSys\<lparr>files := [''/tmp/cache'' \<mapsto> []], denied := (\<lambda>p. True)\<rparr>"
              "sampleSys\<lparr>files := [''/tmp/cache'' \<mapsto> []], denied := (\<lambda>p. True),
                         io := [EvVerifyOrCreateFile ''/tmp/cache'']\<rparr>"
              "''/tmp/cache''" None True "()"]
        load_failure_disables_cache
          [of "cachingCtx ''/tmp/cache''" samplePlatform
              "sampleSys\<lparr>denied := (\<lambda>p. True)\<rparr>"
              "sampleSys\<lparr>denied := (\<lambda>p. True), io := [EvVerifyOrCreateFile ''/tmp/cache'']\<rparr>"
              "''/tmp/cache''" "Some (PathError ''create'' ''/tmp/cache'')" True "()"]
        sample_parse_flow
  by (simp add: cachingCtx_def resolveCacheFile_def VerifyOrCreateFile_def sampleSys_def
                samplePlatform_def yaml_Unmarshal_def)

text \<open>
  An input at which a missing file does not lead to the no-op cache: caching is enabled,
  no file exists at the configured path, the path can be created and the Docker client
  too. \<^verbatim>\<open>NewCache\<close> creates the file and returns the cache with the empty map.
\<close>

theorem missing_file_is_created:
  "CacheArtifacts (Opts (cachingCtx ''/tmp/cache''))
   \<and> files sampleSys ''/tmp/cache'' = None
   \<and> snd (NewCache samplePlatform sampleSys (cachingCtx ''/tmp/cache'') True ())
       = Inr (realCache
               \<lparr>artifactCache = ArtifactCache_of fmempty, dependencies = (), client = Some zeroClient,
                insecureRegistries = fmempty, cacheFile = ''/tmp/cache'', imagesAreLocal = True\<rparr>)
   \<and> snd (NewCache samplePlatform sampleSys (cachingCtx ''/tmp/cache'') True ()) \<noteq> Inr noCache
   \<and> files (fst (NewCache samplePlatform sampleSys (cachingCtx ''/tmp/cache'') True ())) ''/tmp/cache''
       = Some []"
  by (simp add: NewCache_def cachingCtx_def samplePlatform_def sampleSys_def
                resolveCacheFile_def VerifyOrCreateFile_def retrieveArtifactCache_def
                ioutil_ReadFile_def yaml_Unmarshal_def sample_parse_def)

text \<open>
  C1, as the code has it. With caching enabled, the cache file resolved and loaded, and
  the creation of the Docker client failing with \<open>e\<close>: if images are local, \<^verbatim>\<open>NewCache\<close>
  returns no cache and the error \<open>e\<close> wrapped as "getting local Docker client"; if
  images are not local, the error is dropped and the cache is returned.
\<close>

theorem client_failure_is_fatal:
  assumes "CacheArtifacts (Opts runCtx)"
      and "resolveCacheFile P s (CacheFile (Opts runCtx)) = (s1, file, None)"
      and "retrieveArtifactCache P s1 file = (s2, Inr c)"
      and "newDockerClient P runCtx = (cl, Some e)"
  shows "NewCache P s runCtx True deps = (s2, Inl (Wrap e ''getting local Docker client''))
       \<and> NewCache P s runCtx False deps =
           (s2, Inr (realCache \<lparr>artifactCache = c, dependencies = deps, client = cl,
                                insecureRegistries = InsecureRegistries runCtx,
                                cacheFile = file, imagesAreLocal = False\<rparr>))"
  using assms by (simp add: NewCache_def)

theorem client_failure_is_fatal_witness:
  "NewCache noDaemonPlatform sampleSys (cachingCtx ''/tmp/cache'') True () =
     (sampleSys\<lparr>files := [''/tmp/cache'' \<mapsto> []],
                io := [EvVerifyOrCreateFile ''/tmp/cache'', EvReadFile ''/tmp/cache'']\<rparr>,
      Inl (Wrap (Errorf ''cannot connect to the daemon'') ''getting local Docker client''))"
  using client_failure_is_fatal
          [of "cachingCtx ''/tmp/cache''" noDaemonPlatform sampleSys
              "sampleSys\<lparr>files := [''/tmp/cache'' \<mapsto> []], io := [EvVerifyOrCreateFile ''/tmp/cache'']\<rparr>"
              "''/tmp/cache''"
              "sampleSys\<lparr>files := [''/tmp/cache'' \<mapsto> []],
                         io := [EvVerifyOrCreateFile ''/tmp/cache'', EvReadFile ''/tmp/cache'']\<rparr>"
              "ArtifactCache_of fmempty" None "Errorf ''cannot connect to the daemon''" "()"]
  by (simp add: cachingCtx_def noDaemonPlatform_def samplePlatform_def sampleSys_def
                resolveCacheFile_def VerifyOrCreateFile_def retrieveArtifactCache_def
                ioutil_ReadFile_def yaml_Unmarshal_def sample_parse_def)

text \<open>
  An input at which recovery to the no-op cache does not happen: caching is enabled, the
  cache file is created and loaded empty, the Docker client cannot be created, images
  are local, and the result is the wrapped error, not the no-op cache.
\<close>

theorem client_failure_not_recovered:
  "CacheArtifacts (Opts (cachingCtx ''/tmp/cache''))
   \<and> snd (newDockerClient noDaemonPlatform (cachingCtx ''/tmp/cache''))
       = Some (Errorf ''cannot connect to the daemon'')
   \<and> snd (NewCache noDaemonPlatform sampleSys (cachingCtx ''/tmp/cache'') True ())
       = Inl (Wrap (Errorf ''cannot connect to the daemon'') ''getting local Docker client'')
   \<and> snd (NewCache noDaemonPlatform sampleSys (cachingCtx ''/tmp/cache'') True ()) \<noteq> Inr noCache"
  by (simp add: NewCache_def cachingCtx_def noDaemonPlatform_def samplePlatform_def sampleSys_def
                resolveCacheFile_def VerifyOrCreateFile_def retrieveArtifactCache_def
                ioutil_ReadFile_def yaml_Unmarshal_def sample_parse_def)

text \<open>
  C10. For a file that exists, can be read and is empty, with a parser that finds no
  document in the empty text, \<^verbatim>\<open>retrieveArtifactCache\<close> returns the empty map that is not
  nil, and no error. So when resolution yields such a file, and the Docker client is
  created or images are not local, \<^verbatim>\<open>NewCache\<close> returns the cache with this empty map, not
  the no-op cache.
\<close>

theorem empty_file_gives_empty_cache:
  assumes "files s p = Some []" and "\<not> denied s p" and "yaml_parse P [] = Inr None"
  shows "snd (retrieveArtifactCache P s p) = Inr (ArtifactCache_of fmempty)
       \<and> (CacheArtifacts (Opts runCtx) \<and> resolveCacheFile P s0 (CacheFile (Opts runCtx)) = (s, p, None)
            \<and> (local \<longrightarrow> snd (newDockerClient P runCtx) = None) \<longrightarrow>
            (\<exists>c. snd (NewCache P s0 runCtx local deps) = Inr (realCache c)
                \<and> artifactCache c = ArtifactCache_of fmempty \<and> cacheFile c = p))"
proof -
  have r: "retrieveArtifactCache P s p = (s\<lparr>io := io s @ [EvReadFile p]\<rparr>, Inr (ArtifactCache_of fmempty))"
    using assms by (simp add: retrieve_result yaml_Unmarshal_def)
  obtain cl err where n: "newDockerClient P runCtx = (cl, err)"
    by (cases "newDockerClient P runCtx")
  show ?thesis
    using r n by (cases err) (auto simp: NewCache_def)
qed

theorem empty_file_gives_empty_cache_witness:
  "snd (retrieveArtifactCache samplePlatform
          (sampleSys\<lparr>files := [''/tmp/cache'' \<mapsto> []], io := [EvVerifyOrCreateFile ''/tmp/cache'']\<rparr>)
          ''/tmp/cache'') = Inr (ArtifactCache_of fmempty)
   \<and> (\<exists>c. snd (NewCache samplePlatform sampleSys (cachingCtx ''/tmp/cache'') True ()) = Inr (realCache c)
          \<and> artifactCache c = ArtifactCache_of fmempty \<and> cacheFile c = ''/tmp/cache'')"
  using empty_file_gives_empty_cache
          [of "sampleSys\<lparr>files := [''/tmp/cache'' \<mapsto> []], io := [EvVerifyOrCreateFile ''/tmp/cache'']\<rparr>"
              "''/tmp/cache''" samplePlatform "cachingCtx ''/tmp/cache''" sampleSys True "()"]
  by (simp add: cachingCtx_def samplePlatform_def sampleSys_def resolveCacheFile_def
                VerifyOrCreateFile_def sample_parse_def)















end
